theory Spec2Isabelle
  imports Main "HOL-Library.Word"
begin

section \<open>JavaScript values used by the library\<close>

text \<open>
  A JavaScript string is a sequence of UTF-16 code units; \<open>charCodeAt\<close> reads one of
  them, a number below \<open>65536\<close>. String literals of the source are written with \<open>js\<close>.
\<close>

type_synonym jsstring = "16 word list"

definition js :: "string \<Rightarrow> jsstring" where
  "js s = map (\<lambda>c. of_nat (of_char c)) s"

text \<open>\<open>s.startsWith(searchString)\<close>, from position 0.\<close>

definition startsWith :: "jsstring \<Rightarrow> jsstring \<Rightarrow> bool" where
  "startsWith s searchString = (take (length searchString) s = searchString)"

text \<open>
  The abstract operation \<open>ToInt32\<close> of ECMAScript, which \<open>hash |= 0\<close> and the operands
  and the result of \<open>hash << 5\<close> go through. Numbers are modelled as mathematical
  integers: every intermediate value of \<open>hashText\<close> is an integer far below \<open>2 ^ 53\<close>
  (lemma \<open>hash_step_exact\<close>), where double arithmetic is exact.
\<close>

definition ToInt32 :: "int \<Rightarrow> int" where
  "ToInt32 x = (let int32bit = x mod 2 ^ 32
                in if int32bit \<ge> 2 ^ 31 then int32bit - 2 ^ 32 else int32bit)"

definition shiftLeft :: "int \<Rightarrow> nat \<Rightarrow> int" where
  "shiftLeft x n = ToInt32 (ToInt32 x * 2 ^ (n mod 32))"

text \<open>\<open>Number.prototype.toString()\<close> on an integer: its decimal digits, after a minus sign
  when it is negative.\<close>

fun decimalDigits :: "nat \<Rightarrow> jsstring" where
  "decimalDigits n =
     (if n < 10 then [of_nat (48 + n)]
      else decimalDigits (n div 10) @ [of_nat (48 + n mod 10)])"

declare decimalDigits.simps [simp del]

definition Number_toString :: "int \<Rightarrow> jsstring" where
  "Number_toString x =
     (if x < 0 then of_nat 45 # decimalDigits (nat (- x)) else decimalDigits (nat x))"

section \<open>useTranslation.ts: hashText\<close>

text \<open>The loop of \<open>hashText\<close>; \<open>chr\<close> is \<open>text.charCodeAt(i)\<close>.\<close>

fun hashLoop :: "int \<Rightarrow> jsstring \<Rightarrow> int" where
  "hashLoop hash [] = hash"
| "hashLoop hash (chr # rest) =
     hashLoop (ToInt32 ((shiftLeft hash 5 - hash) + uint chr)) rest"

definition hashText :: "jsstring \<Rightarrow> jsstring" where
  "hashText text = Number_toString (hashLoop 0 text)"

text \<open>
  The fingerprint as the specification words it: a 32-bit accumulator that starts at 0,
  is updated by \<open>acc = (acc << 5) - acc + code\<close> in 32-bit arithmetic, and is read as a
  signed number at the end.
\<close>

fun fingerprint_acc :: "32 word \<Rightarrow> jsstring \<Rightarrow> 32 word" where
  "fingerprint_acc acc [] = acc"
| "fingerprint_acc acc (code # codes) =
     fingerprint_acc (push_bit 5 acc - acc + ucast code) codes"

definition fingerprint :: "jsstring \<Rightarrow> jsstring" where
  "fingerprint text = Number_toString (sint (fingerprint_acc 0 text))"

section \<open>types.ts\<close>

record AITranslationRequest =
  req_text :: jsstring
  targetLanguage :: jsstring

record AITranslationResponse =
  translatedText :: jsstring
  detectedSourceLanguage :: "jsstring option"

text \<open>
  \<open>TranslationCache\<close>: an object used as a dictionary from language to a dictionary from
  text hash to translation. The maps hold the objects' own properties. What a read or a
  write of a name finds beyond them, on \<open>Object.prototype\<close>, is in the state below.
\<close>

type_synonym TranslationCache = "jsstring \<rightharpoonup> (jsstring \<rightharpoonup> jsstring)"

section \<open>The environment: localStorage and the registered provider\<close>

text \<open>
  What \<open>localStorage\<close> holds under \<open>CACHE_KEY\<close> is a string. The code tests it for
  emptiness and hands it to \<open>JSON.parse\<close>, so a stored string is one of: the empty string;
  a text on which \<open>JSON.parse\<close> throws; the JSON text \<open>null\<close>; the serialisation of an
  object whose members are objects with string members (what \<open>JSON.stringify\<close> writes for
  a \<open>TranslationCache\<close>, and what \<open>JSON.parse\<close> gives back); or a JSON text of any other
  shape (a number, an array, an object with other members).
\<close>

datatype blob = EmptyString | Malformed | JsonNull | OtherJson | Serialized TranslationCache

text \<open>
  What \<open>JSON.parse\<close> returns, which \<open>loadCache\<close> passes on under the declared type
  \<open>TranslationCache\<close> without a check.
\<close>

datatype parsed = ParsedNull | ParsedOther | ParsedCache TranslationCache

datatype error = StorageError | SyntaxError | ProviderError | TypeError

text \<open>
  How a call ends: it returns (an async function's promise is fulfilled), it throws (the
  promise is rejected), or it never completes because it awaits a promise that stays
  pending. \<open>Unmodelled\<close> marks the calls whose course depends on parts of the JavaScript
  realm that this theory does not describe (the members of values that are no cache, the
  built-in members of functions); nothing is proved about such a call but that it is one.
\<close>

datatype 'a completion = Returned 'a | Thrown error | Pending | Unmodelled

text \<open>
  A provider is a host function \<open>(text, targetLanguage) => Promise<string>\<close>. It is not
  pure: what it does may differ from call to call, so the model gives it the number of
  invocations made before the present one.
\<close>

datatype provider_result = Fulfils jsstring | Rejects | ThrowsSync | NeverSettles

type_synonym provider = "nat \<Rightarrow> jsstring \<Rightarrow> jsstring \<Rightarrow> provider_result"

text \<open>
  The state the library works on: the module variable \<open>aiProviderTranslate\<close>, the log of
  the provider's invocations (their arguments, oldest first), the entry of
  \<open>localStorage\<close> under \<open>CACHE_KEY\<close>, and the storage medium's failures:
  \<open>storage_throws w n\<close> says whether the access number \<open>n\<close> to \<open>localStorage\<close> throws.

  Every object \<open>JSON.parse\<close> or \<open>{}\<close> creates inherits from \<open>Object.prototype\<close>, so
  \<open>cache[language]\<close> for a name the cache does not own reads \<open>Object.prototype\<close>: under
  each name of \<open>inherited_names\<close> it finds a built-in object (a function, and under
  \<open>__proto__\<close> the prototype itself), under another name whatever has been assigned
  there. These objects live as long as the page, outside of \<open>localStorage\<close>.
  \<open>shared w name\<close> holds the string members that have been assigned on the object under
  the inherited name \<open>name\<close>; \<open>shared w (js ''__proto__'')\<close> are those of
  \<open>Object.prototype\<close> itself, which every object inherits in turn.
\<close>

definition inherited_names :: "jsstring list" where
  "inherited_names =
     map js [''constructor'', ''__defineGetter__'', ''__defineSetter__'', ''hasOwnProperty'',
             ''__lookupGetter__'', ''__lookupSetter__'', ''isPrototypeOf'',
             ''propertyIsEnumerable'', ''toString'', ''valueOf'', ''__proto__'',
             ''toLocaleString'']"

record world =
  aiProviderTranslate :: "provider option"
  provider_log :: "(jsstring \<times> jsstring) list"
  localStorage_item :: "blob option"
  storage_throws :: "nat \<Rightarrow> bool"
  storage_accesses :: nat
  shared :: "jsstring \<Rightarrow> (jsstring \<rightharpoonup> jsstring)"

type_synonym 'a js = "world \<Rightarrow> 'a completion \<times> world"

definition return_js :: "'a \<Rightarrow> 'a js" where
  "return_js v w = (Returned v, w)"

definition throw_js :: "error \<Rightarrow> 'a js" where
  "throw_js e w = (Thrown e, w)"

definition bind_js :: "'a js \<Rightarrow> ('a \<Rightarrow> 'b js) \<Rightarrow> 'b js" where
  "bind_js m f w =
     (case m w of
        (Returned v, w') \<Rightarrow> f v w'
      | (Thrown e, w') \<Rightarrow> (Thrown e, w')
      | (Pending, w') \<Rightarrow> (Pending, w')
      | (Unmodelled, w') \<Rightarrow> (Unmodelled, w'))"

definition unmodelled :: "'a js" where
  "unmodelled w = (Unmodelled, w)"

definition try_catch :: "'a js \<Rightarrow> (error \<Rightarrow> 'a js) \<Rightarrow> 'a js" where
  "try_catch body handler w =
     (case body w of
        (Thrown e, w') \<Rightarrow> handler e w'
      | r \<Rightarrow> r)"

definition localStorage_getItem :: "blob option js" where
  "localStorage_getItem w =
     (let w' = w\<lparr>storage_accesses := Suc (storage_accesses w)\<rparr>
      in if storage_throws w (storage_accesses w) then (Thrown StorageError, w')
         else (Returned (localStorage_item w), w'))"

definition localStorage_setItem :: "blob \<Rightarrow> unit js" where
  "localStorage_setItem v w =
     (let w' = w\<lparr>storage_accesses := Suc (storage_accesses w)\<rparr>
      in if storage_throws w (storage_accesses w) then (Thrown StorageError, w')
         else (Returned (), w'\<lparr>localStorage_item := Some v\<rparr>))"

definition JSON_parse :: "blob \<Rightarrow> parsed js" where
  "JSON_parse raw =
     (case raw of
        Serialized cache \<Rightarrow> return_js (ParsedCache cache)
      | JsonNull \<Rightarrow> return_js ParsedNull
      | OtherJson \<Rightarrow> return_js ParsedOther
      | EmptyString \<Rightarrow> throw_js SyntaxError
      | Malformed \<Rightarrow> throw_js SyntaxError)"

definition JSON_stringify :: "TranslationCache \<Rightarrow> blob" where
  "JSON_stringify cache = Serialized cache"

text \<open>The provider's invocation, awaited.\<close>

definition await_provider :: "provider \<Rightarrow> jsstring \<Rightarrow> jsstring \<Rightarrow> jsstring js" where
  "await_provider fn text lang w =
     (let w' = w\<lparr>provider_log := provider_log w @ [(text, lang)]\<rparr>
      in case fn (length (provider_log w)) text lang of
           Fulfils translated \<Rightarrow> (Returned translated, w')
         | Rejects \<Rightarrow> (Thrown ProviderError, w')
         | ThrowsSync \<Rightarrow> (Thrown ProviderError, w')
         | NeverSettles \<Rightarrow> (Pending, w'))"

section \<open>Property access on a cache\<close>

text \<open>
  What \<open>cache[language]\<close> evaluates to on an object \<open>cache\<close> of the cache's shape: the
  object's own member; else, for one of the \<open>inherited_names\<close>, the built-in object of
  that name; else the string assigned on \<open>Object.prototype\<close> under the name, if any; else
  \<open>undefined\<close>.
\<close>

datatype member =
    Absent
  | Entries "jsstring \<rightharpoonup> jsstring"
  | Inherited jsstring
  | Primitive jsstring

definition get_language :: "world \<Rightarrow> TranslationCache \<Rightarrow> jsstring \<Rightarrow> member" where
  "get_language w cache language =
     (case cache language of
        Some entries \<Rightarrow> Entries entries
      | None \<Rightarrow>
          if language \<in> set inherited_names then Inherited language
          else (case shared w (js ''__proto__'') language of
                  Some v \<Rightarrow> Primitive v
                | None \<Rightarrow> Absent))"

text \<open>Whether \<open>!cache[language]\<close> is false: an object is truthy, a string when not empty.\<close>

definition truthy_member :: "member \<Rightarrow> bool" where
  "truthy_member m =
     (case m of
        Absent \<Rightarrow> False
      | Entries entries \<Rightarrow> True
      | Inherited name \<Rightarrow> True
      | Primitive v \<Rightarrow> v \<noteq> [])"

text \<open>
  The keys made of digits and minus signs only, as every \<open>hashText\<close> result is. No
  built-in object has a member of such a name.
\<close>

definition numeric_key :: "jsstring \<Rightarrow> bool" where
  "numeric_key key = list_all (\<lambda>c. c = 45 \<or> (48 \<le> c \<and> c \<le> 57)) key"

text \<open>
  \<open>cache[language]?.[hash]\<close>, given what \<open>cache[language]\<close> is. An entries object yields
  its own member, else what it inherits: a built-in object for one of the
  \<open>inherited_names\<close> (not modelled), else the string assigned on \<open>Object.prototype\<close>
  under the hash, if any. A built-in object yields, for a numeric key, the string
  assigned on it, else the one it inherits from \<open>Object.prototype\<close>; its built-in
  members, under other keys, are not modelled, nor are the members of a string.
\<close>

definition get_hash :: "world \<Rightarrow> member \<Rightarrow> jsstring \<Rightarrow> jsstring option completion" where
  "get_hash w m hash =
     (case m of
        Absent \<Rightarrow> Returned None
      | Entries entries \<Rightarrow>
          (case entries hash of
             Some v \<Rightarrow> Returned (Some v)
           | None \<Rightarrow>
               if hash \<in> set inherited_names then Unmodelled
               else Returned (shared w (js ''__proto__'') hash))
      | Inherited name \<Rightarrow>
          if numeric_key hash
          then (case shared w name hash of
                  Some v \<Rightarrow> Returned (Some v)
                | None \<Rightarrow> Returned (shared w (js ''__proto__'') hash))
          else Unmodelled
      | Primitive v \<Rightarrow> Unmodelled)"

text \<open>
  \<open>entries[hash] = value\<close> on an entries object. Under the key \<open>__proto__\<close> an object
  that does not own the key has the prototype setter, which ignores a string.
\<close>

definition assign :: "(jsstring \<rightharpoonup> jsstring) \<Rightarrow> jsstring \<Rightarrow> jsstring \<Rightarrow> (jsstring \<rightharpoonup> jsstring)" where
  "assign entries hash val =
     (if hash = js ''__proto__'' \<and> entries hash = None then entries
      else entries(hash \<mapsto> val))"

section \<open>translationCache.ts\<close>

definition loadCache :: "parsed js" where
  "loadCache =
     try_catch
       (bind_js localStorage_getItem (\<lambda>raw.
          case raw of
            None \<Rightarrow> return_js (ParsedCache Map.empty)
          | Some EmptyString \<Rightarrow> return_js (ParsedCache Map.empty)
          | Some r \<Rightarrow> JSON_parse r))
       (\<lambda>e. return_js (ParsedCache Map.empty))"

definition saveCache :: "TranslationCache \<Rightarrow> unit js" where
  "saveCache cache =
     try_catch (localStorage_setItem (JSON_stringify cache)) (\<lambda>e. return_js ())"

text \<open>
  \<open>cache[language]\<close> on \<open>null\<close> throws a \<open>TypeError\<close>, outside of the \<open>try\<close> of
  \<open>loadCache\<close>.
\<close>

definition getCachedTranslation :: "jsstring \<Rightarrow> jsstring \<Rightarrow> jsstring option js" where
  "getCachedTranslation language hash =
     bind_js loadCache (\<lambda>cache.
       case cache of
         ParsedNull \<Rightarrow> throw_js TypeError
       | ParsedOther \<Rightarrow> unmodelled
       | ParsedCache c \<Rightarrow> (\<lambda>w. (get_hash w (get_language w c language) hash, w)))"

text \<open>
  The assignment \<open>cache[language][hash] = value\<close> lands where \<open>cache[language]\<close> points:
  in the cache's own entries, or on a built-in object, where it stays in the page and
  out of the saved cache. On a string it does nothing or throws, with the mode of the
  compiled code (not modelled).
\<close>

definition setCachedTranslation :: "jsstring \<Rightarrow> jsstring \<Rightarrow> jsstring \<Rightarrow> unit js" where
  "setCachedTranslation language hash val =
     bind_js loadCache (\<lambda>cache.
       case cache of
         ParsedNull \<Rightarrow> throw_js TypeError
       | ParsedOther \<Rightarrow> unmodelled
       | ParsedCache c \<Rightarrow> (\<lambda>w.
           let cache1 = (if \<not> truthy_member (get_language w c language)
                         then c(language \<mapsto> Map.empty) else c)
           in case get_language w cache1 language of
                Absent \<Rightarrow> throw_js TypeError w
              | Entries entries \<Rightarrow>
                  saveCache (cache1(language \<mapsto> assign entries hash val)) w
              | Inherited name \<Rightarrow>
                  if numeric_key hash
                  then saveCache cache1
                         (w\<lparr>shared := (shared w)(name := (shared w name)(hash \<mapsto> val))\<rparr>)
                  else unmodelled w
              | Primitive v \<Rightarrow> unmodelled w))"

section \<open>aiTranslate.ts\<close>

definition setAITranslateProvider :: "provider \<Rightarrow> unit js" where
  "setAITranslateProvider fn w = (Returned (), w\<lparr>aiProviderTranslate := Some fn\<rparr>)"

definition mock :: "AITranslationRequest \<Rightarrow> AITranslationResponse" where
  "mock req =
     \<lparr>translatedText = js ''['' @ targetLanguage req @ js ''] '' @ req_text req,
      detectedSourceLanguage = Some (js ''en'')\<rparr>"

text \<open>
  The \<open>try\<close> block returns from the function when the provider's promise is fulfilled; after
  the \<open>catch\<close>, and when no provider is registered, control reaches the mock.
\<close>

definition aiTranslate :: "AITranslationRequest \<Rightarrow> AITranslationResponse js" where
  "aiTranslate req w =
     (case aiProviderTranslate w of
        Some fn \<Rightarrow>
          bind_js
            (try_catch
               (bind_js (await_provider fn (req_text req) (targetLanguage req)) (\<lambda>translated.
                  return_js (Some \<lparr>translatedText = translated,
                                    detectedSourceLanguage = Some (js ''en'')\<rparr>)))
               (\<lambda>e. return_js None))
            (\<lambda>returned. case returned of
                           Some res \<Rightarrow> return_js res
                         | None \<Rightarrow> return_js (mock req)) w
      | None \<Rightarrow> return_js (mock req) w)"

section \<open>useTranslation.ts: t\<close>

text \<open>
  \<open>t\<close> closes over the hook's \<open>language\<close>. A \<open>cached\<close> value is \<open>undefined\<close> (\<open>None\<close>)
  or a string, and a string is truthy when it is not empty. In \<open>cached && e\<close> the
  expression \<open>e\<close> is evaluated only for a truthy \<open>cached\<close>, so \<open>the cached\<close> is read
  only where \<open>cached\<close> is a string.
\<close>

definition truthy :: "jsstring option \<Rightarrow> bool" where
  "truthy v = (case v of None \<Rightarrow> False | Some s \<Rightarrow> s \<noteq> [])"

definition t :: "jsstring \<Rightarrow> jsstring \<Rightarrow> jsstring js" where
  "t language text =
     (if language = js ''en'' then return_js text
      else
        let hash = hashText text in
        bind_js (getCachedTranslation language hash) (\<lambda>cached.
          let isFallback =
                (truthy cached \<and> startsWith (the cached) (js ''['' @ language @ js ''] ''))
          in if truthy cached \<and> \<not> isFallback then return_js (the cached)
             else
               bind_js (aiTranslate \<lparr>req_text = text, targetLanguage = language\<rparr>) (\<lambda>res.
               bind_js (setCachedTranslation language hash (translatedText res)) (\<lambda>u.
               return_js (translatedText res)))))"

section \<open>Observations on the state\<close>

text \<open>The cache a stored item stands for: what \<open>loadCache\<close> returns when the read succeeds.\<close>

definition persisted :: "world \<Rightarrow> TranslationCache" where
  "persisted w =
     (case localStorage_item w of
        Some (Serialized cache) \<Rightarrow> cache
      | _ \<Rightarrow> Map.empty)"

text \<open>
  No string has been assigned on \<open>Object.prototype\<close> under the language: \<open>cache[language]\<close>
  is an object or \<open>undefined\<close>.
\<close>

definition plain_language :: "world \<Rightarrow> jsstring \<Rightarrow> bool" where
  "plain_language w language =
     (language \<in> set inherited_names \<or> shared w (js ''__proto__'') language = None)"

text \<open>What \<open>loadCache\<close> returns in a state: the empty cache when the read throws.\<close>

definition loaded :: "world \<Rightarrow> parsed" where
  "loaded w =
     (if storage_throws w (storage_accesses w) then ParsedCache Map.empty
      else (case localStorage_item w of
              None \<Rightarrow> ParsedCache Map.empty
            | Some EmptyString \<Rightarrow> ParsedCache Map.empty
            | Some Malformed \<Rightarrow> ParsedCache Map.empty
            | Some JsonNull \<Rightarrow> ParsedNull
            | Some OtherJson \<Rightarrow> ParsedOther
            | Some (Serialized cache) \<Rightarrow> ParsedCache cache))"

text \<open>\<open>cache[language]?.[hash]\<close> in a state.\<close>

definition lookup ::
  "world \<Rightarrow> TranslationCache \<Rightarrow> jsstring \<Rightarrow> jsstring \<Rightarrow> jsstring option completion" where
  "lookup w cache language hash = get_hash w (get_language w cache language) hash"

text \<open>The stored item is one \<open>loadCache\<close> turns into a cache: no JSON text of another shape.\<close>

definition cache_shaped :: "world \<Rightarrow> bool" where
  "cache_shaped w =
     (localStorage_item w \<noteq> Some JsonNull \<and> localStorage_item w \<noteq> Some OtherJson)"

text \<open>The entry of a cache under a language and a hash: \<open>cache[language]?.[hash]\<close>.\<close>

definition entry :: "TranslationCache \<Rightarrow> jsstring \<Rightarrow> jsstring \<Rightarrow> jsstring option" where
  "entry cache language hash =
     (case cache language of None \<Rightarrow> None | Some entries \<Rightarrow> entries hash)"

text \<open>The marker prefix of a language, and the cached values \<open>t\<close> returns as they are.\<close>

definition marker :: "jsstring \<Rightarrow> jsstring" where
  "marker language = js ''['' @ language @ js ''] ''"

definition trusted :: "jsstring \<Rightarrow> jsstring option \<Rightarrow> bool" where
  "trusted language cached =
     (case cached of
        None \<Rightarrow> False
      | Some c \<Rightarrow> c \<noteq> [] \<and> \<not> startsWith c (marker language))"

text \<open>What the registered provider does at its next invocation, if one is registered.\<close>

definition next_provider_result :: "world \<Rightarrow> jsstring \<Rightarrow> jsstring \<Rightarrow> provider_result option" where
  "next_provider_result w text lang =
     (case aiProviderTranslate w of
        None \<Rightarrow> None
      | Some fn \<Rightarrow> Some (fn (length (provider_log w)) text lang))"

text \<open>The storage accesses numbered from \<open>n\<close> up to \<open>n + k - 1\<close> all succeed.\<close>

definition storage_works :: "world \<Rightarrow> nat \<Rightarrow> nat \<Rightarrow> bool" where
  "storage_works w n k = list_all (\<lambda>i. \<not> storage_throws w i) [n ..< n + k]"

section \<open>Concrete environments\<close>

definition never_throws :: "nat \<Rightarrow> bool" where
  "never_throws n = False"

definition always_throws :: "nat \<Rightarrow> bool" where
  "always_throws n = True"

definition returns_Hola :: provider where
  "returns_Hola n text lang = Fulfils (js ''Hola'')"

definition always_rejects :: provider where
  "always_rejects n text lang = Rejects"

definition never_settles :: provider where
  "never_settles n text lang = NeverSettles"

definition es_cache :: "jsstring \<Rightarrow> TranslationCache" where
  "es_cache val = [js ''es'' \<mapsto> [js ''69609650'' \<mapsto> val]]"

definition start :: "provider option \<Rightarrow> blob option \<Rightarrow> world" where
  "start fn item =
     \<lparr>aiProviderTranslate = fn, provider_log = [], localStorage_item = item,
      storage_throws = never_throws, storage_accesses = 0,
      shared = (\<lambda>name. Map.empty)\<rparr>"

section \<open>The fingerprint\<close>

lemma ToInt32_signed_take_bit: "ToInt32 x = signed_take_bit 31 x"
proof -
  let ?m = "x mod 2 ^ 32"
  have m: "0 \<le> ?m" "?m < 2 ^ 32" by simp_all
  have "(x + 2 ^ 31) mod 2 ^ 32 = (?m + 2 ^ 31) mod 2 ^ 32"
    by (simp add: mod_add_left_eq)
  also have "\<dots> = (if ?m \<ge> 2 ^ 31 then ?m + 2 ^ 31 - 2 ^ 32 else ?m + 2 ^ 31)"
  proof (cases "?m \<ge> 2 ^ 31")
    case True
    then have "(?m + 2 ^ 31) mod 2 ^ 32 = (?m + 2 ^ 31 - 2 ^ 32) mod 2 ^ 32"
      by (metis mod_diff_right_eq mod_self diff_zero)
    also have "\<dots> = ?m + 2 ^ 31 - 2 ^ 32"
      using True m by (intro mod_pos_pos_trivial) simp_all
    finally show ?thesis using True by simp
  next
    case False
    then have "(?m + 2 ^ 31) mod 2 ^ 32 = ?m + 2 ^ 31"
      using m by (intro mod_pos_pos_trivial) simp_all
    then show ?thesis using False by simp
  qed
  finally have "(x + 2 ^ 31) mod 2 ^ 32 - 2 ^ 31 = (if ?m \<ge> 2 ^ 31 then ?m - 2 ^ 32 else ?m)"
    by simp
  then show ?thesis
    by (simp add: ToInt32_def signed_take_bit_eq_take_bit_shift take_bit_eq_mod Let_def)
qed

lemma ToInt32_sint: "ToInt32 x = sint (word_of_int x :: 32 word)"
  by (simp add: ToInt32_signed_take_bit sint_sbintrunc')

lemma word_of_int_ToInt32: "(word_of_int (ToInt32 x) :: 32 word) = word_of_int x"
  by (simp add: ToInt32_sint)

lemma ToInt32_range: "- (2 ^ 31) \<le> ToInt32 x \<and> ToInt32 x < 2 ^ 31"
  using signed_take_bit_int_greater_eq_minus_exp [of 31 x] signed_take_bit_int_less_exp [of 31 x]
  by (simp add: ToInt32_signed_take_bit)

lemma hash_step_exact:
  fixes chr :: "16 word"
  assumes "- (2 ^ 31) \<le> hash" and "hash < 2 ^ 31"
  shows "\<bar>(shiftLeft hash 5 - hash) + uint chr\<bar> < 2 ^ 53"
proof -
  have s: "- 2147483648 \<le> shiftLeft hash 5" "shiftLeft hash 5 < 2147483648"
    using ToInt32_range [of "ToInt32 hash * 2 ^ (5 mod 32)"] by (simp_all add: shiftLeft_def)
  have h: "- 2147483648 \<le> hash" "hash < 2147483648"
    using assms by simp_all
  have c: "0 \<le> uint chr" "uint chr < 65536"
    using uint_lt2p [of chr] by simp_all
  have "\<bar>(shiftLeft hash 5 - hash) + uint chr\<bar> < 9007199254740992"
    using s h c by linarith
  then show ?thesis by simp
qed

lemma hash_step:
  "ToInt32 ((shiftLeft (sint a) 5 - sint a) + uint c) = sint (push_bit 5 a - a + ucast c)"
  for a :: "32 word" and c :: "16 word"
proof -
  have "(word_of_int ((shiftLeft (sint a) 5 - sint a) + uint c) :: 32 word)
        = push_bit 5 a - a + ucast c"
    by (simp add: shiftLeft_def word_of_int_ToInt32 push_bit_eq_mult unsigned_ucast_eq)
  then show ?thesis by (simp add: ToInt32_sint)
qed

lemma hashLoop_fingerprint_acc:
  "hashLoop (sint a) codes = sint (fingerprint_acc a codes)"
  by (induction codes arbitrary: a) (simp_all add: hash_step)

lemma hashText_Hello: "hashText (js ''Hello'') = js ''69609650''"
  by (simp add: hashText_def js_def ToInt32_def shiftLeft_def Number_toString_def
      decimalDigits.simps)

lemma hashText_wraps: "hashText (js ''Hello world'') = js ''-832992604''"
  by (simp add: hashText_def js_def ToInt32_def shiftLeft_def Number_toString_def
      decimalDigits.simps)

lemma hashText_empty: "hashText [] = js ''0''"
  by (simp add: hashText_def js_def Number_toString_def decimalDigits.simps)

text \<open>
  Claim C6. The fingerprint is a function of the text alone, and for every string it is
  the reference rolling hash: from the accumulator 0, each character code updates it by
  \<open>acc = (acc << 5) - acc + code\<close> truncated to the signed 32-bit range, and the result is
  the decimal string of the final accumulator.
\<close>

theorem hashText_is_fingerprint: "hashText text = fingerprint text"
  using hashLoop_fingerprint_acc [of 0 "text"] by (simp add: hashText_def fingerprint_def)

section \<open>Fingerprints as keys\<close>

lemma digit_code:
  assumes "d < 10"
  shows "(48 :: 16 word) \<le> of_nat (48 + d) \<and> (of_nat (48 + d) :: 16 word) \<le> 57"
proof -
  from assms have "d \<in> {0, 1, 2, 3, 4, 5, 6, 7, 8, 9}" by auto
  then show ?thesis by auto
qed

lemma numeric_key_decimalDigits: "numeric_key (decimalDigits n)"
proof (induction n rule: decimalDigits.induct)
  case (1 n)
  show ?case
  proof (cases "n < 10")
    case True
    then show ?thesis
      using digit_code [of n] by (subst decimalDigits.simps) (simp add: numeric_key_def)
  next
    case False
    then have "numeric_key (decimalDigits (n div 10))" using 1 by simp
    moreover have "n mod 10 < 10" by simp
    ultimately show ?thesis
      using False digit_code [of "n mod 10"]
      by (subst decimalDigits.simps) (simp add: numeric_key_def)
  qed
qed

lemma numeric_key_hashText: "numeric_key (hashText text)"
  using numeric_key_decimalDigits
  by (simp add: hashText_def Number_toString_def numeric_key_def)

lemma numeric_key_not_inherited: "numeric_key key \<Longrightarrow> key \<notin> set inherited_names"
  by (auto simp: inherited_names_def numeric_key_def js_def)

lemma hashText_not_inherited: "hashText text \<notin> set inherited_names"
  by (rule numeric_key_not_inherited [OF numeric_key_hashText])

lemma hashText_not_proto: "hashText text \<noteq> js ''__proto__''"
  using hashText_not_inherited [of "text"] by (auto simp: inherited_names_def)

section \<open>The cache store\<close>

lemma get_language_accesses [simp]:
  "get_language (w\<lparr>storage_accesses := n\<rparr>) cache language = get_language w cache language"
  by (simp add: get_language_def split: option.splits)

lemma get_language_item [simp]:
  "get_language (w\<lparr>localStorage_item := i\<rparr>) cache language = get_language w cache language"
  by (simp add: get_language_def split: option.splits)

lemma get_language_log [simp]:
  "get_language (w\<lparr>provider_log := l\<rparr>) cache language = get_language w cache language"
  by (simp add: get_language_def split: option.splits)

lemma get_hash_accesses [simp]:
  "get_hash (w\<lparr>storage_accesses := n\<rparr>) m hash = get_hash w m hash"
  by (simp add: get_hash_def split: option.splits member.splits)

lemma get_hash_item [simp]:
  "get_hash (w\<lparr>localStorage_item := i\<rparr>) m hash = get_hash w m hash"
  by (simp add: get_hash_def split: option.splits member.splits)

lemma get_hash_log [simp]:
  "get_hash (w\<lparr>provider_log := l\<rparr>) m hash = get_hash w m hash"
  by (simp add: get_hash_def split: option.splits member.splits)

lemma lookup_frame [simp]:
  "lookup (w\<lparr>storage_accesses := n\<rparr>) cache language hash = lookup w cache language hash"
  "lookup (w\<lparr>localStorage_item := i\<rparr>) cache language hash = lookup w cache language hash"
  "lookup (w\<lparr>provider_log := l\<rparr>) cache language hash = lookup w cache language hash"
  by (simp_all add: lookup_def)

lemma loadCache_eq:
  "loadCache w = (Returned (loaded w), w\<lparr>storage_accesses := Suc (storage_accesses w)\<rparr>)"
  by (simp add: loadCache_def try_catch_def bind_js_def localStorage_getItem_def return_js_def
      throw_js_def JSON_parse_def loaded_def Let_def split: option.splits blob.splits)

lemma saveCache_eq:
  "saveCache cache w =
     (Returned (),
      if storage_throws w (storage_accesses w)
      then w\<lparr>storage_accesses := Suc (storage_accesses w)\<rparr>
      else w\<lparr>storage_accesses := Suc (storage_accesses w),
             localStorage_item := Some (Serialized cache)\<rparr>)"
  by (simp add: saveCache_def try_catch_def localStorage_setItem_def return_js_def
      JSON_stringify_def Let_def)

lemma getCachedTranslation_eq:
  "getCachedTranslation language hash w =
     (case loaded w of
        ParsedNull \<Rightarrow> Thrown TypeError
      | ParsedOther \<Rightarrow> Unmodelled
      | ParsedCache c \<Rightarrow> lookup w c language hash,
      w\<lparr>storage_accesses := Suc (storage_accesses w)\<rparr>)"
  by (simp add: getCachedTranslation_def bind_js_def loadCache_eq throw_js_def unmodelled_def
      lookup_def split: parsed.splits)

lemma getCachedTranslation_snd [simp]:
  "snd (getCachedTranslation language hash w) = w\<lparr>storage_accesses := Suc (storage_accesses w)\<rparr>"
  by (simp add: getCachedTranslation_eq)

lemma loaded_cache_shaped:
  "cache_shaped w \<Longrightarrow>
     loaded w = ParsedCache (if storage_throws w (storage_accesses w) then Map.empty
                             else persisted w)"
  by (auto simp: cache_shaped_def loaded_def persisted_def split: option.splits blob.splits)

lemma get_language_own [simp]:
  "get_language w (cache(language \<mapsto> entries)) language = Entries entries"
  by (simp add: get_language_def)

lemma setCachedTranslation_eq:
  "setCachedTranslation language hash val w =
     (let w1 = w\<lparr>storage_accesses := Suc (storage_accesses w)\<rparr> in
      case loaded w of
        ParsedNull \<Rightarrow> (Thrown TypeError, w1)
      | ParsedOther \<Rightarrow> (Unmodelled, w1)
      | ParsedCache c \<Rightarrow>
          (case get_language w c language of
             Absent \<Rightarrow> saveCache (c(language \<mapsto> assign Map.empty hash val)) w1
           | Entries entries \<Rightarrow> saveCache (c(language \<mapsto> assign entries hash val)) w1
           | Inherited name \<Rightarrow>
               if numeric_key hash
               then saveCache c
                      (w1\<lparr>shared := (shared w)(name := (shared w name)(hash \<mapsto> val))\<rparr>)
               else (Unmodelled, w1)
           | Primitive v \<Rightarrow>
               if v = [] then saveCache (c(language \<mapsto> assign Map.empty hash val)) w1
               else (Unmodelled, w1)))"
proof (cases "loaded w")
  case (ParsedCache c)
  show ?thesis
  proof (cases "get_language w c language")
    case (Entries entries)
    then have own: "c language = Some entries"
      by (auto simp: get_language_def split: option.splits if_splits)
    then have "c(language \<mapsto> entries) = c" by (simp add: fun_upd_idem)
    then show ?thesis
      using ParsedCache Entries
      by (simp add: setCachedTranslation_def bind_js_def loadCache_eq truthy_member_def Let_def)
  qed (use ParsedCache in \<open>simp_all add: setCachedTranslation_def bind_js_def loadCache_eq
        truthy_member_def unmodelled_def Let_def\<close>)
qed (simp_all add: setCachedTranslation_def bind_js_def loadCache_eq throw_js_def unmodelled_def)

lemma setCachedTranslation_frame [simp]:
  "provider_log (snd (setCachedTranslation language hash val w)) = provider_log w"
  "aiProviderTranslate (snd (setCachedTranslation language hash val w)) = aiProviderTranslate w"
  "storage_throws (snd (setCachedTranslation language hash val w)) = storage_throws w"
  by (simp_all add: setCachedTranslation_eq saveCache_eq Let_def
      split: parsed.splits member.splits)

lemma setCachedTranslation_accesses:
  "fst (setCachedTranslation language hash val w) = Returned u \<Longrightarrow>
     storage_accesses (snd (setCachedTranslation language hash val w))
       = Suc (Suc (storage_accesses w))"
  by (simp add: setCachedTranslation_eq saveCache_eq Let_def
      split: parsed.splits member.splits if_splits)

lemma get_language_plain:
  "plain_language w language \<Longrightarrow> get_language w c language \<noteq> Primitive v"
  by (auto simp: plain_language_def get_language_def split: option.splits)

lemma setCachedTranslation_returns:
  assumes "cache_shaped w" and "plain_language w language" and "numeric_key hash"
  shows "fst (setCachedTranslation language hash val w) = Returned ()"
proof -
  obtain c where c: "loaded w = ParsedCache c"
    using loaded_cache_shaped [OF assms(1)] by blast
  show ?thesis
    using get_language_plain [OF assms(2), of c] assms(3)
    by (cases "get_language w c language")
       (auto simp: setCachedTranslation_eq c saveCache_eq Let_def)
qed

lemma getCachedTranslation_returns:
  assumes "cache_shaped w" and "plain_language w language" and "numeric_key hash"
  shows "\<exists>cached. fst (getCachedTranslation language hash w) = Returned cached"
proof -
  obtain c where c: "loaded w = ParsedCache c"
    using loaded_cache_shaped [OF assms(1)] by blast
  have "hash \<notin> set inherited_names"
    by (rule numeric_key_not_inherited [OF assms(3)])
  then show ?thesis
    using get_language_plain [OF assms(2), of c] assms(3)
    by (cases "get_language w c language")
       (auto simp: getCachedTranslation_eq c lookup_def get_hash_def split: option.splits)
qed

lemma storage_works_2:
  "storage_works w n 2 \<longleftrightarrow> \<not> storage_throws w n \<and> \<not> storage_throws w (Suc n)"
  by (simp add: storage_works_def upt_rec [of n] upt_rec [of "Suc n"])





section \<open>The provider indirection\<close>

lemma aiTranslate_eq:
  "aiTranslate req w =
     (case aiProviderTranslate w of
        None \<Rightarrow> (Returned (mock req), w)
      | Some fn \<Rightarrow>
          (case fn (length (provider_log w)) (req_text req) (targetLanguage req) of
             Fulfils translated \<Rightarrow>
               Returned \<lparr>translatedText = translated, detectedSourceLanguage = Some (js ''en'')\<rparr>
           | Rejects \<Rightarrow> Returned (mock req)
           | ThrowsSync \<Rightarrow> Returned (mock req)
           | NeverSettles \<Rightarrow> Pending,
           w\<lparr>provider_log := provider_log w @ [(req_text req, targetLanguage req)]\<rparr>))"
  by (simp add: aiTranslate_def bind_js_def try_catch_def await_provider_def return_js_def Let_def
      split: option.splits provider_result.splits)

lemma next_provider_result_accesses [simp]:
  "next_provider_result (w\<lparr>storage_accesses := n\<rparr>) text lang = next_provider_result w text lang"
  by (simp add: next_provider_result_def split: option.splits)

lemma aiTranslate_fst:
  "fst (aiTranslate \<lparr>req_text = text, targetLanguage = lang\<rparr> w) =
     (case next_provider_result w text lang of
        None \<Rightarrow> Returned (mock \<lparr>req_text = text, targetLanguage = lang\<rparr>)
      | Some (Fulfils translated) \<Rightarrow>
          Returned \<lparr>translatedText = translated, detectedSourceLanguage = Some (js ''en'')\<rparr>
      | Some Rejects \<Rightarrow> Returned (mock \<lparr>req_text = text, targetLanguage = lang\<rparr>)
      | Some ThrowsSync \<Rightarrow> Returned (mock \<lparr>req_text = text, targetLanguage = lang\<rparr>)
      | Some NeverSettles \<Rightarrow> Pending)"
  by (simp add: aiTranslate_eq next_provider_result_def
      split: option.splits provider_result.splits)


lemma aiTranslate_storage [simp]:
  "localStorage_item (snd (aiTranslate req w)) = localStorage_item w"
  "storage_throws (snd (aiTranslate req w)) = storage_throws w"
  "storage_accesses (snd (aiTranslate req w)) = storage_accesses w"
  "aiProviderTranslate (snd (aiTranslate req w)) = aiProviderTranslate w"
  "shared (snd (aiTranslate req w)) = shared w"
  by (simp_all add: aiTranslate_eq split: option.splits)

lemma cache_shaped_frame [simp]:
  "cache_shaped (w\<lparr>storage_accesses := n\<rparr>) = cache_shaped w"
  "cache_shaped (snd (aiTranslate req w)) = cache_shaped w"
  by (simp_all add: cache_shaped_def)

lemma plain_language_frame [simp]:
  "plain_language (w\<lparr>storage_accesses := n\<rparr>) language = plain_language w language"
  "plain_language (snd (aiTranslate req w)) language = plain_language w language"
  by (simp_all add: plain_language_def)

lemma storage_works_frame [simp]:
  "storage_works (w\<lparr>storage_accesses := n\<rparr>) m k = storage_works w m k"
  "storage_works (snd (aiTranslate req w)) m k = storage_works w m k"
  by (simp_all add: storage_works_def)

text \<open>
  Claim C8. For every text and target language, when a provider is registered and its
  promise is fulfilled, the translation result is the provider's string as
  \<open>translatedText\<close> together with \<open>detectedSourceLanguage\<close> set to \<open>en\<close>; and every
  result of \<open>aiTranslate\<close>, from the provider or the mock, carries that same fixed value.
\<close>

theorem aiTranslate_provider_success:
  "(aiProviderTranslate w = Some fn \<and>
    fn (length (provider_log w)) (req_text req) (targetLanguage req) = Fulfils translated \<longrightarrow>
      fst (aiTranslate req w) =
        Returned \<lparr>translatedText = translated, detectedSourceLanguage = Some (js ''en'')\<rparr>) \<and>
   (fst (aiTranslate req w) = Returned res \<longrightarrow> detectedSourceLanguage res = Some (js ''en''))"
  by (auto simp: aiTranslate_eq mock_def split: option.splits provider_result.splits)

theorem aiTranslate_provider_success_witness:
  "aiProviderTranslate (start (Some returns_Hola) None) = Some returns_Hola \<and>
   returns_Hola 0 (js ''Hello'') (js ''es'') = Fulfils (js ''Hola'') \<and>
   fst (aiTranslate \<lparr>req_text = js ''Hello'', targetLanguage = js ''es''\<rparr>
          (start (Some returns_Hola) None)) =
     Returned \<lparr>translatedText = js ''Hola'', detectedSourceLanguage = Some (js ''en'')\<rparr> \<and>
   detectedSourceLanguage \<lparr>translatedText = js ''Hola'', detectedSourceLanguage = Some (js ''en'')\<rparr>
     = Some (js ''en'')"
  using aiTranslate_provider_success
      [of "start (Some returns_Hola) None" returns_Hola
          "\<lparr>req_text = js ''Hello'', targetLanguage = js ''es''\<rparr>" "js ''Hola''"
          "\<lparr>translatedText = js ''Hola'', detectedSourceLanguage = Some (js ''en'')\<rparr>"]
  by (simp add: start_def returns_Hola_def)

section \<open>The coordinator\<close>

text \<open>
  Claim C5. For every input text, when the language is \<open>en\<close>, \<open>t\<close> resolves to the text
  unchanged and leaves the whole state as it was: no storage access, no provider
  invocation.
\<close>

theorem t_en_identity: "t (js ''en'') text w = (Returned text, w)"
  by (simp add: t_def return_js_def)

lemma t_after_get:
  assumes "language \<noteq> js ''en''"
      and get: "getCachedTranslation language (hashText text) w = (Returned cached, w1)"
  shows "t language text w =
     (if trusted language cached then (Returned (the cached), w1)
      else bind_js (aiTranslate \<lparr>req_text = text, targetLanguage = language\<rparr>) (\<lambda>res.
           bind_js (setCachedTranslation language (hashText text) (translatedText res)) (\<lambda>u.
           return_js (translatedText res))) w1)"
proof -
  let ?translate =
    "bind_js (aiTranslate \<lparr>req_text = text, targetLanguage = language\<rparr>) (\<lambda>res.
     bind_js (setCachedTranslation language (hashText text) (translatedText res)) (\<lambda>u.
     return_js (translatedText res)))"
  have t: "t language text w =
      (if truthy cached \<and>
          \<not> (truthy cached \<and> startsWith (the cached) (js ''['' @ language @ js ''] ''))
       then return_js (the cached) w1 else ?translate w1)"
    using assms(1) by (simp add: t_def Let_def bind_js_def [of "getCachedTranslation _ _"] get)
  have guard: "(truthy cached \<and>
          \<not> (truthy cached \<and> startsWith (the cached) (js ''['' @ language @ js ''] '')))
        \<longleftrightarrow> trusted language cached"
    by (cases cached) (auto simp: truthy_def trusted_def marker_def)
  show ?thesis
    unfolding t guard by (simp add: return_js_def)
qed

lemma t_get_fails:
  assumes "language \<noteq> js ''en''"
      and "fst (getCachedTranslation language (hashText text) w) = Thrown e"
  shows "fst (t language text w) = Thrown e"
  using assms
  by (cases "getCachedTranslation language (hashText text) w")
     (simp add: t_def Let_def bind_js_def [of "getCachedTranslation _ _"])

lemma t_untrusted_settled:
  assumes "language \<noteq> js ''en''"
      and "getCachedTranslation language (hashText text) w = (Returned cached, w1)"
      and "\<not> trusted language cached"
      and "aiTranslate \<lparr>req_text = text, targetLanguage = language\<rparr> w1 = (Returned res, w2)"
      and "fst (setCachedTranslation language (hashText text) (translatedText res) w2)
             = Returned ()"
  shows "t language text w =
           (Returned (translatedText res),
            snd (setCachedTranslation language (hashText text) (translatedText res) w2))"
  using t_after_get [OF assms(1,2)] assms(3,4,5)
  by (simp add: bind_js_def return_js_def split: prod.splits)

lemma t_untrusted_pending:
  assumes "language \<noteq> js ''en''"
      and "getCachedTranslation language (hashText text) w = (Returned cached, w1)"
      and "\<not> trusted language cached"
      and "aiTranslate \<lparr>req_text = text, targetLanguage = language\<rparr> w1 = (Pending, w2)"
  shows "t language text w = (Pending, w2)"
  using t_after_get [OF assms(1,2)] assms(3,4)
  by (simp add: bind_js_def)

lemma es_not_en: "js ''es'' \<noteq> js ''en''"
  by (simp add: js_def)

lemma t_unfold:
  assumes "language \<noteq> js ''en''"
      and "loaded w = ParsedCache c"
      and "lookup w c language (hashText text) = Returned cached"
  shows "t language text w =
     (if trusted language cached
      then (Returned (the cached), w\<lparr>storage_accesses := Suc (storage_accesses w)\<rparr>)
      else bind_js (aiTranslate \<lparr>req_text = text, targetLanguage = language\<rparr>) (\<lambda>res.
           bind_js (setCachedTranslation language (hashText text) (translatedText res)) (\<lambda>u.
           return_js (translatedText res)))
             (w\<lparr>storage_accesses := Suc (storage_accesses w)\<rparr>))"
  by (rule t_after_get [OF assms(1)]) (simp add: getCachedTranslation_eq assms(2,3))

lemmas run_simps =
  setCachedTranslation_eq saveCache_eq aiTranslate_eq loaded_def lookup_def get_language_def
  get_hash_def assign_def truthy_member_def numeric_key_def inherited_names_def start_def
  never_throws_def always_throws_def persisted_def trusted_def marker_def startsWith_def
  es_cache_def mock_def bind_js_def return_js_def returns_Hola_def always_rejects_def
  never_settles_def Let_def js_def

text \<open>
  Claim C1, amended. For every text, language, provider registration, provider behaviour
  and pattern of storage failures, \<open>t\<close> never rejects, provided the stored text is absent,
  empty, unparseable or the serialisation of a cache, and nothing has been assigned on
  \<open>Object.prototype\<close> under the language's name. Whenever, besides, the provider's promise
  settles at its next invocation (it is fulfilled, it is rejected, or the provider
  throws), or no provider is registered, \<open>t\<close> resolves to a string: the original text, the
  value the cache read returned, the provider's translation, or the synthetic fallback.
  The claim as stated promises a result for every provider behaviour; that fails for a
  provider whose promise stays pending: \<open>t\<close> awaits it without a timeout and never
  completes, as the run after the theorem shows. What \<open>t\<close> does on a stored JSON text of
  another shape is left out here; it is the subject of claim C9.
\<close>

theorem t_never_rejects:
  assumes "cache_shaped w" and "plain_language w language"
  shows "fst (t language text w) \<noteq> Thrown e \<and>
   fst (t language text w) \<noteq> Unmodelled \<and>
   (next_provider_result w text language \<noteq> Some NeverSettles \<longrightarrow>
      (\<exists>s. fst (t language text w) = Returned s \<and>
           (s = text \<or>
            fst (getCachedTranslation language (hashText text) w) = Returned (Some s) \<or>
            next_provider_result w text language = Some (Fulfils s) \<or>
            s = js ''['' @ language @ js ''] '' @ text)))"
proof (cases "language = js ''en''")
  case True
  then show ?thesis by (simp add: t_def return_js_def)
next
  case False
  let ?h = "hashText text"
  let ?w1 = "w\<lparr>storage_accesses := Suc (storage_accesses w)\<rparr>"
  let ?req = "\<lparr>req_text = text, targetLanguage = language\<rparr>"
  obtain cached where cached: "fst (getCachedTranslation language ?h w) = Returned cached"
    using getCachedTranslation_returns [OF assms numeric_key_hashText] by blast
  then have get: "getCachedTranslation language ?h w = (Returned cached, ?w1)"
    by (metis getCachedTranslation_snd prod.collapse)
  show ?thesis
  proof (cases "trusted language cached")
    case True
    then obtain c where "cached = Some c"
      by (auto simp: trusted_def split: option.splits)
    then show ?thesis using True cached by (simp add: t_after_get [OF False get])
  next
    case untrusted: False
    obtain out w2 where ai: "aiTranslate ?req ?w1 = (out, w2)"
      by (cases "aiTranslate ?req ?w1")
    then have w2: "w2 = snd (aiTranslate ?req ?w1)" and out: "out = fst (aiTranslate ?req ?w1)"
      by simp_all
    have set_ok: "fst (setCachedTranslation language ?h val w2) = Returned ()" for val
      using assms by (intro setCachedTranslation_returns) (simp_all add: w2 numeric_key_hashText)
    show ?thesis
    proof (cases out)
      case (Returned res)
      have "fst (t language text w) = Returned (translatedText res)"
        using t_untrusted_settled [OF False get untrusted ai [unfolded Returned] set_ok]
        by simp
      moreover have "fst (aiTranslate ?req ?w1) = Returned res"
        using out Returned by simp
      ultimately show ?thesis
        by (auto simp: aiTranslate_fst mock_def split: option.splits provider_result.splits)
    next
      case Pending
      have "fst (t language text w) = Pending"
        using t_untrusted_pending [OF False get untrusted ai [unfolded Pending]] by simp
      moreover have "fst (aiTranslate ?req ?w1) = Pending"
        using out Pending by simp
      ultimately show ?thesis
        by (auto simp: aiTranslate_fst split: option.splits provider_result.splits)
    next
      case (Thrown e')
      then have "fst (aiTranslate ?req ?w1) = Thrown e'" using out by simp
      then show ?thesis
        by (auto simp: aiTranslate_fst split: option.splits provider_result.splits)
    next
      case Unmodelled
      then have "fst (aiTranslate ?req ?w1) = Unmodelled" using out by simp
      then show ?thesis
        by (auto simp: aiTranslate_fst split: option.splits provider_result.splits)
    qed
  qed
qed

theorem t_never_rejects_witness:
  "cache_shaped ((start (Some always_rejects) (Some Malformed))\<lparr>storage_throws := always_throws\<rparr>) \<and>
   plain_language ((start (Some always_rejects) (Some Malformed))\<lparr>storage_throws := always_throws\<rparr>)
     (js ''es'') \<and>
   next_provider_result
     ((start (Some always_rejects) (Some Malformed))\<lparr>storage_throws := always_throws\<rparr>)
     (js ''Hello'') (js ''es'') = Some Rejects \<and>
   fst (t (js ''es'') (js ''Hello'')
          ((start (Some always_rejects) (Some Malformed))\<lparr>storage_throws := always_throws\<rparr>))
     \<noteq> Thrown StorageError \<and>
   fst (t (js ''es'') (js ''Hello'')
          ((start (Some always_rejects) (Some Malformed))\<lparr>storage_throws := always_throws\<rparr>))
     = Returned (js ''[es] Hello'')"
proof -
  let ?w = "(start (Some always_rejects) (Some Malformed))\<lparr>storage_throws := always_throws\<rparr>"
  have shaped: "cache_shaped ?w" by (simp add: cache_shaped_def start_def)
  have plain: "plain_language ?w (js ''es'')" by (simp add: plain_language_def start_def)
  have rejects: "next_provider_result ?w (js ''Hello'') (js ''es'') = Some Rejects"
    by (simp add: next_provider_result_def start_def always_rejects_def)
  have miss: "fst (getCachedTranslation (js ''es'') (hashText (js ''Hello'')) ?w) = Returned None"
    by (simp add: getCachedTranslation_eq loaded_def lookup_def get_language_def get_hash_def
        start_def always_throws_def inherited_names_def js_def)
  note th = t_never_rejects [OF shaped plain, of "js ''Hello''"]
  from th have no: "fst (t (js ''es'') (js ''Hello'') ?w) \<noteq> Thrown StorageError"
    by blast
  from th rejects obtain s where s: "fst (t (js ''es'') (js ''Hello'') ?w) = Returned s"
    and which: "s = js ''Hello'' \<or>
       fst (getCachedTranslation (js ''es'') (hashText (js ''Hello'')) ?w) = Returned (Some s) \<or>
       next_provider_result ?w (js ''Hello'') (js ''es'') = Some (Fulfils s) \<or>
       s = js ''['' @ js ''es'' @ js ''] '' @ js ''Hello''"
    by auto
  have "s \<noteq> js ''Hello''"
  proof
    assume "s = js ''Hello''"
    then have "fst (t (js ''es'') (js ''Hello'') ?w) = Returned (js ''Hello'')" using s by simp
    moreover have "fst (t (js ''es'') (js ''Hello'') ?w) = Returned (js ''[es] Hello'')"
      by (subst t_unfold [OF es_not_en, where c = Map.empty and cached = None])
         (simp_all add: run_simps)
    ultimately show False by (simp add: js_def)
  qed
  with which miss rejects have "s = js ''['' @ js ''es'' @ js ''] '' @ js ''Hello''" by auto
  then have "s = js ''[es] Hello''" by (simp add: js_def)
  with shaped plain rejects no s show ?thesis by simp
qed

theorem t_pending_provider:
  "fst (t (js ''es'') (js ''Hello'') (start (Some never_settles) None)) = Pending"
  by (subst t_unfold [OF es_not_en, where c = Map.empty and cached = None])
     (simp_all add: run_simps)







lemma t_returns_cached_iff_trusted:
  assumes "language \<noteq> js ''en''"
      and get: "getCachedTranslation language (hashText text) w = (Returned cached, w1)"
  shows "(\<exists>c. cached = Some c \<and> t language text w = (Returned c, w1))
           \<longleftrightarrow> trusted language cached"
proof
  assume "trusted language cached"
  moreover from this obtain c where "cached = Some c"
    by (auto simp: trusted_def split: option.splits)
  ultimately show "\<exists>c. cached = Some c \<and> t language text w = (Returned c, w1)"
    using t_after_get [OF assms] by simp
next
  assume hit: "\<exists>c. cached = Some c \<and> t language text w = (Returned c, w1)"
  show "trusted language cached"
  proof (rule ccontr)
    assume untrusted: "\<not> trusted language cached"
    let ?req = "\<lparr>req_text = text, targetLanguage = language\<rparr>"
    have w1: "w1 = w\<lparr>storage_accesses := Suc (storage_accesses w)\<rparr>"
      using get getCachedTranslation_snd [of language "hashText text" w] by simp
    obtain out w2 where ai: "aiTranslate ?req w1 = (out, w2)"
      by (cases "aiTranslate ?req w1")
    then have w2: "w2 = snd (aiTranslate ?req w1)" by simp
    from hit obtain c where t: "t language text w = (Returned c, w1)" by blast
    have run: "bind_js (aiTranslate ?req) (\<lambda>res.
           bind_js (setCachedTranslation language (hashText text) (translatedText res)) (\<lambda>u.
           return_js (translatedText res))) w1 = (Returned c, w1)"
      using t_after_get [OF assms] untrusted unfolding t by simp
    obtain res where out: "out = Returned res"
      using run ai by (cases out) (simp_all add: bind_js_def)
    obtain fin w3 where
      set: "setCachedTranslation language (hashText text) (translatedText res) w2 = (fin, w3)"
      by (cases "setCachedTranslation language (hashText text) (translatedText res) w2")
    have fin: "fin = Returned ()"
      using run ai out set by (cases fin) (simp_all add: bind_js_def return_js_def)
    have "w3 = w1"
      using run ai out set fin by (simp add: bind_js_def return_js_def)
    with fin set
    have "fst (setCachedTranslation language (hashText text) (translatedText res) w2) = Returned ()"
      and w1': "w1 = snd (setCachedTranslation language (hashText text) (translatedText res) w2)"
      by simp_all
    then have "storage_accesses w1 = Suc (Suc (storage_accesses w2))"
      using setCachedTranslation_accesses [of language "hashText text" "translatedText res" w2]
      by metis
    then show False by (simp add: w2 w1)
  qed
qed

text \<open>
  Claim C2. For a language other than \<open>en\<close>, \<open>t\<close> returns the cached value at once, with no
  provider call and no cache write, exactly when the value is trusted: it exists, it is
  not empty, and it does not start with the marker (\<open>t_returns_cached_iff_trusted\<close>).
  The claim asks the same of every existing value without the marker. The code departs
  from it at the empty string, which \<open>cached &&\<close> takes for a missing value: with the
  empty string cached for a text, \<open>t\<close> invokes the provider again and overwrites the entry.
\<close>

theorem empty_cached_value_retranslated:
  "entry (persisted (start (Some returns_Hola) (Some (Serialized (es_cache [])))))
       (js ''es'') (hashText (js ''Hello'')) = Some [] \<and>
   fst (getCachedTranslation (js ''es'') (hashText (js ''Hello''))
          (start (Some returns_Hola) (Some (Serialized (es_cache []))))) = Returned (Some []) \<and>
   \<not> startsWith [] (js ''['' @ js ''es'' @ js ''] '') \<and>
   t (js ''es'') (js ''Hello'') (start (Some returns_Hola) (Some (Serialized (es_cache [])))) =
     (Returned (js ''Hola''),
      \<lparr>aiProviderTranslate = Some returns_Hola,
       provider_log = [(js ''Hello'', js ''es'')],
       localStorage_item = Some (Serialized (es_cache (js ''Hola''))),
       storage_throws = never_throws, storage_accesses = 3,
       shared = (\<lambda>name. Map.empty)\<rparr>)"
proof -
  have "entry (persisted (start (Some returns_Hola) (Some (Serialized (es_cache [])))))
       (js ''es'') (hashText (js ''Hello'')) = Some []"
    unfolding hashText_Hello
    by (simp add: start_def persisted_def es_cache_def entry_def)
  moreover
  have "fst (getCachedTranslation (js ''es'') (hashText (js ''Hello''))
          (start (Some returns_Hola) (Some (Serialized (es_cache []))))) = Returned (Some [])"
    unfolding hashText_Hello
    by (simp add: getCachedTranslation_eq loaded_def lookup_def get_language_def get_hash_def
        start_def never_throws_def es_cache_def)
  moreover have "\<not> startsWith [] (js ''['' @ js ''es'' @ js ''] '')"
    by (simp add: startsWith_def js_def)
  moreover have "t (js ''es'') (js ''Hello'')
      (start (Some returns_Hola) (Some (Serialized (es_cache [])))) =
     (Returned (js ''Hola''),
      \<lparr>aiProviderTranslate = Some returns_Hola,
       provider_log = [(js ''Hello'', js ''es'')],
       localStorage_item = Some (Serialized (es_cache (js ''Hola''))),
       storage_throws = never_throws, storage_accesses = 3,
       shared = (\<lambda>name. Map.empty)\<rparr>)"
    by (subst t_unfold [OF es_not_en, where c = "es_cache []" and cached = "Some []"],
        unfold hashText_Hello) (simp_all add: run_simps)
  ultimately show ?thesis by blast
qed







section \<open>Stored texts and languages the code does not expect\<close>

lemma getCachedTranslation_absorbs:
  assumes "storage_throws w (storage_accesses w) \<or> localStorage_item w = Some Malformed"
      and "language \<notin> set inherited_names"
      and "shared w (js ''__proto__'') language = None"
  shows "fst (loadCache w) = Returned (ParsedCache Map.empty) \<and>
         fst (getCachedTranslation language hash w) = Returned None"
  using assms
  by (auto simp: loadCache_eq getCachedTranslation_eq loaded_def lookup_def get_language_def
      get_hash_def)

lemma setCachedTranslation_own:
  assumes "cache_shaped w" and "storage_works w (storage_accesses w) 2"
      and "language \<notin> set inherited_names"
      and "shared w (js ''__proto__'') language = None"
      and "hash \<noteq> js ''__proto__''"
  shows "fst (setCachedTranslation language hash val w) = Returned () \<and>
         shared (snd (setCachedTranslation language hash val w)) = shared w \<and>
         persisted (snd (setCachedTranslation language hash val w)) =
           (persisted w)(language \<mapsto>
              (case persisted w language of None \<Rightarrow> Map.empty | Some entries \<Rightarrow> entries)
                (hash \<mapsto> val))"
proof -
  have ok: "\<not> storage_throws w (storage_accesses w)"
      "\<not> storage_throws w (Suc (storage_accesses w))"
    using assms(2) by (simp_all add: storage_works_2)
  have c: "loaded w = ParsedCache (persisted w)"
    using loaded_cache_shaped [OF assms(1)] ok by simp
  show ?thesis
    using assms(3,4,5) ok
    by (cases "persisted w language")
       (simp_all add: setCachedTranslation_eq c get_language_def saveCache_eq assign_def
          persisted_def Let_def)
qed

text \<open>
  Claim C9. The cache read should never raise and should treat a storage read failure or
  a corrupted stored blob as an empty cache. \<open>loadCache\<close> does so when the read throws
  and when \<open>JSON.parse\<close> throws (\<open>getCachedTranslation_absorbs\<close>). The code departs from
  the claim at a stored text that is valid JSON but no cache. On the text \<open>null\<close>,
  \<open>JSON.parse\<close> returns \<open>null\<close> within the \<open>try\<close>, and \<open>cache[language]\<close> then throws a
  \<open>TypeError\<close> outside of it: the read raises, and so do the write and \<open>t\<close>.
\<close>

theorem null_blob_read_raises:
  "fst (getCachedTranslation (js ''es'') (hashText (js ''Hello'')) (start None (Some JsonNull)))
     = Thrown TypeError \<and>
   fst (setCachedTranslation (js ''es'') (hashText (js ''Hello'')) (js ''Hola'')
          (start None (Some JsonNull)))
     = Thrown TypeError \<and>
   fst (t (js ''es'') (js ''Hello'') (start None (Some JsonNull))) = Thrown TypeError"
proof -
  have get: "fst (getCachedTranslation (js ''es'') (hashText (js ''Hello''))
                    (start None (Some JsonNull))) = Thrown TypeError"
    by (simp add: getCachedTranslation_eq loaded_def start_def never_throws_def)
  moreover have "fst (setCachedTranslation (js ''es'') (hashText (js ''Hello'')) (js ''Hola'')
          (start None (Some JsonNull))) = Thrown TypeError"
    by (simp add: setCachedTranslation_eq loaded_def start_def never_throws_def)
  moreover have "fst (t (js ''es'') (js ''Hello'') (start None (Some JsonNull))) = Thrown TypeError"
    by (rule t_get_fails [OF es_not_en get])
  ultimately show ?thesis by blast
qed

text \<open>
  Claim C10. The cache write should put the value under the language and the fingerprint
  and leave every other entry as it was, for every language. With the stored text a
  cache and a language the cache owns or no object knows, it does
  (\<open>setCachedTranslation_own\<close>). The code departs from the claim at a language that names
  a member of \<open>Object.prototype\<close>. For \<open>__proto__\<close>, \<open>cache[language]\<close> is the prototype
  itself: the write returns, the value is assigned on the prototype, the saved cache is
  the one that was loaded, without the entry, and the read of another language, whose
  entries lack the fingerprint, now returns the value.
\<close>

theorem proto_language_write_escapes:
  "fst (setCachedTranslation (js ''__proto__'') (hashText (js ''Hello'')) (js ''Hola'')
          (start None (Some (Serialized [js ''es'' \<mapsto> Map.empty]))))
     = Returned () \<and>
   localStorage_item
       (snd (setCachedTranslation (js ''__proto__'') (hashText (js ''Hello'')) (js ''Hola'')
          (start None (Some (Serialized [js ''es'' \<mapsto> Map.empty])))))
     = Some (Serialized [js ''es'' \<mapsto> Map.empty]) \<and>
   fst (getCachedTranslation (js ''es'') (hashText (js ''Hello''))
          (start None (Some (Serialized [js ''es'' \<mapsto> Map.empty]))))
     = Returned None \<and>
   fst (getCachedTranslation (js ''es'') (hashText (js ''Hello''))
          (snd (setCachedTranslation (js ''__proto__'') (hashText (js ''Hello'')) (js ''Hola'')
             (start None (Some (Serialized [js ''es'' \<mapsto> Map.empty]))))))
     = Returned (Some (js ''Hola''))"
  unfolding hashText_Hello
  by (simp add: getCachedTranslation_eq run_simps)

end
